theory Spec2Isabelle
  imports Complex_Main
begin

section \<open>The watermark pattern generator of watermark.py\<close>

text \<open>
  The development embeds \<^verbatim>\<open>get_system_font\<close>, \<^verbatim>\<open>create_single_text_watermark\<close> and
  \<^verbatim>\<open>create_photo_text_watermark\<close> of \<^verbatim>\<open>src/watermark.py\<close>.

  The program is written against two libraries that are not part of the repository:
  the imaging library (PIL) and the floating-point arithmetic of the interpreter and of
  the \<^verbatim>\<open>math\<close> module. Both enter the model as explicit parameters:
  \<^item> a record \<open>pil\<close> of the library functions whose results the program reads
    (which font files load, the measured bounding box of a text, the parsing of a colour
    string, the size of a rotated raster);
  \<^item> a record \<open>floats\<close> with the rounding \<open>fl\<close> applied after every floating-point
    operation and with the library functions \<^verbatim>\<open>math.sqrt\<close>, \<^verbatim>\<open>math.cos\<close>,
    \<^verbatim>\<open>math.sin\<close>, \<^verbatim>\<open>math.radians\<close> and the constant \<^verbatim>\<open>math.pi\<close>.
    A float is its real value; NaN and the infinities are not modelled, and an integer
    converts to a float exactly.

  A raster is the term of the library calls that built it: the program never reads a
  pixel, it only allocates, draws, rotates, pastes and crops. Two equal terms denote the
  same pixels, and the size of a raster is computed from its term.
\<close>

subsection \<open>Data\<close>

datatype error = ValueError | ZeroDivisionError

type_synonym rgba = "nat \<times> nat \<times> nat \<times> nat"

type_synonym box = "int \<times> int \<times> int \<times> int"

text \<open>
  \<^verbatim>\<open>ImageFont.truetype(path, size)\<close> gives a \<open>FreeTypeFont\<close>;
  \<^verbatim>\<open>ImageFont.load_default()\<close> gives the built-in bitmap font, an instance of
  \<^verbatim>\<open>ImageFont.ImageFont\<close>.
\<close>

datatype font = FreeTypeFont string int | ImageFont

datatype image =
    New "int \<times> int" rgba
  | Text image "int \<times> int" string font rgba
  | Rotate image real
  | Paste image image "int \<times> int"
  | Crop image box

record pil =
  font_loads :: "string \<Rightarrow> bool"
  textbbox :: "font \<Rightarrow> string \<Rightarrow> box"
  getcolor :: "string \<Rightarrow> rgba option"
  rotated_size :: "int \<times> int \<Rightarrow> real \<Rightarrow> int \<times> int"

record floats =
  fl :: "real \<Rightarrow> real"
  f_sqrt :: "real \<Rightarrow> real"
  f_cos :: "real \<Rightarrow> real"
  f_sin :: "real \<Rightarrow> real"
  f_radians :: "real \<Rightarrow> real"
  f_pi :: real

text \<open>\<^verbatim>\<open>int(x)\<close> on a float truncates towards zero.\<close>

definition py_int :: "real \<Rightarrow> int" where
  "py_int x = (if 0 \<le> x then \<lfloor>x\<rfloor> else \<lceil>x\<rceil>)"

subsection \<open>The imaging library as the program uses it\<close>

text \<open>\<^verbatim>\<open>Image.new\<close> raises \<^verbatim>\<open>ValueError\<close> on a negative width or height.\<close>

definition image_new :: "int \<times> int \<Rightarrow> rgba \<Rightarrow> error + image" where
  "image_new sz c = (if fst sz < 0 \<or> snd sz < 0 then Inl ValueError else Inr (New sz c))"

text \<open>
  \<^verbatim>\<open>Image.crop\<close> raises \<^verbatim>\<open>ValueError\<close> when \<open>right < left\<close> or
  \<open>bottom < top\<close>; the box may reach outside the raster.
\<close>

definition image_crop :: "image \<Rightarrow> box \<Rightarrow> error + image" where
  "image_crop img b =
     (case b of (left, top', right, bottom) \<Rightarrow>
        if right < left \<or> bottom < top' then Inl ValueError else Inr (Crop img b))"

fun image_size :: "pil \<Rightarrow> image \<Rightarrow> int \<times> int" where
  "image_size P (New sz c) = sz"
| "image_size P (Text img xy t f c) = image_size P img"
| "image_size P (Rotate img a) = rotated_size P (image_size P img) a"
| "image_size P (Paste img src xy) = image_size P img"
| "image_size P (Crop img b) =
     (case b of (left, top', right, bottom) \<Rightarrow> (right - left, bottom - top'))"

text \<open>The text draws of a raster, oldest first, and the number of its pastes.\<close>

fun text_draws :: "image \<Rightarrow> ((int \<times> int) \<times> rgba) list" where
  "text_draws (New sz c) = []"
| "text_draws (Text img xy t f c) = text_draws img @ [(xy, c)]"
| "text_draws (Rotate img a) = text_draws img"
| "text_draws (Paste img src xy) = text_draws img"
| "text_draws (Crop img b) = text_draws img"

fun stamp_count :: "image \<Rightarrow> nat" where
  "stamp_count (New sz c) = 0"
| "stamp_count (Text img xy t f c) = stamp_count img"
| "stamp_count (Rotate img a) = stamp_count img"
| "stamp_count (Paste img src xy) = Suc (stamp_count img)"
| "stamp_count (Crop img b) = stamp_count img"

subsection \<open>get_system_font\<close>

definition backslash :: string where
  "backslash = [CHR 0x5C]"

definition font_options :: "string list" where
  "font_options =
     [''Arial.ttf'', ''arial.ttf'',
      ''Verdana.ttf'', ''verdana.ttf'',
      ''Tahoma.ttf'', ''tahoma.ttf'',
      ''Times.ttf'', ''times.ttf'',
      ''TimesNewRoman.ttf'', ''timesnewroman.ttf'',
      ''DejaVuSans.ttf'', ''DejaVuSans-Bold.ttf'',
      ''Helvetica.ttf'', ''helvetica.ttf'',
      ''/usr/share/fonts/truetype/dejavu/DejaVuSans.ttf'',
      ''/usr/share/fonts/TTF/Arial.ttf'',
      ''/System/Library/Fonts/Helvetica.ttf'',
      ''C:'' @ backslash @ ''Windows'' @ backslash @ ''Fonts'' @ backslash @ ''arial.ttf'',
      ''C:'' @ backslash @ ''Windows'' @ backslash @ ''Fonts'' @ backslash @ ''verdana.ttf'']"

text \<open>The first name of the list that loads, at size 12; the default font otherwise.\<close>

definition get_system_font :: "pil \<Rightarrow> font" where
  "get_system_font P =
     (case find (font_loads P) font_options of
        Some font_name \<Rightarrow> FreeTypeFont font_name 12
      | None \<Rightarrow> ImageFont)"

subsection \<open>create_single_text_watermark\<close>

definition quote :: string where
  "quote = [CHR 0x27]"

text \<open>
  The offsets of the outline pass, in the order of the two nested \<^verbatim>\<open>range\<close> loops,
  the zero offset skipped.
\<close>

definition outline_offsets :: "int \<Rightarrow> (int \<times> int) list" where
  "outline_offsets outline_width =
     [(offset_x, offset_y).
        offset_x \<leftarrow> [- outline_width .. outline_width],
        offset_y \<leftarrow> [- outline_width .. outline_width],
        \<not> (offset_x = 0 \<and> offset_y = 0)]"

text \<open>
  The result is the list of the warnings printed and the tile, or the exception. The
  allocation of the tile comes before the colours are parsed, so a negative size prints
  nothing. The parameter \<open>font_size\<close> is not used by the body.
\<close>

definition create_single_text_watermark ::
  "pil \<Rightarrow> string \<Rightarrow> font \<Rightarrow> int \<Rightarrow> string \<Rightarrow> string \<Rightarrow> int \<Rightarrow> string list \<times> (error + image)" where
  "create_single_text_watermark P text font font_size font_color outline_color outline_width =
     (case textbbox P font text of (x0, y0, x1, y1) \<Rightarrow>
       (let text_width = x1 - x0;
            text_height = y1 - y0;
            padding = outline_width * 2
        in (case image_new (text_width + padding * 2, text_height + padding * 2)
                   (255, 255, 255, 0) of
              Inl e \<Rightarrow> ([], Inl e)
            | Inr text_img \<Rightarrow>
               (let (warn1, font_color_rgb) =
                      (case getcolor P font_color of
                         Some c \<Rightarrow> ([], c)
                       | None \<Rightarrow>
                           ([''Warning: Invalid font color '' @ quote @ font_color @ quote
                               @ ''. Using white.''],
                            (255, 255, 255, 255)));
                    (warn2, outline_color_rgb) =
                      (case getcolor P outline_color of
                         Some c \<Rightarrow> ([], c)
                       | None \<Rightarrow>
                           ([''Warning: Invalid outline color '' @ quote @ outline_color @ quote
                               @ ''. Using black.''],
                            (0, 0, 0, 255)));
                    outlined =
                      (if outline_width > 0
                       then foldl (\<lambda>img (offset_x, offset_y).
                                     Text img (padding + offset_x, padding + offset_y) text font
                                       outline_color_rgb)
                              text_img (outline_offsets outline_width)
                       else text_img)
                in (warn1 @ warn2,
                    Inr (Text outlined (padding, padding) text font font_color_rgb))))))"

subsection \<open>create_photo_text_watermark\<close>

text \<open>
  Lines 274 to 279: the spacing factor and the spacing. The literal \<^verbatim>\<open>0.2\<close> is the
  double nearest to one fifth; \<^verbatim>\<open>1.0\<close> and \<^verbatim>\<open>2.5\<close> are exact.
\<close>

definition spacing_factor :: "floats \<Rightarrow> real \<Rightarrow> real" where
  "spacing_factor F density = max (fl F 0.2) (min 1.0 (fl F (1.0 - density)))"

definition base_spacing :: "floats \<Rightarrow> int \<times> int \<Rightarrow> real \<Rightarrow> int" where
  "base_spacing F sz density =
     (case sz of (text_width, text_height) \<Rightarrow>
        py_int (fl F (fl F (of_int (max text_width text_height) * 2.5)
                        * spacing_factor F density)))"

definition diagonal_length :: "floats \<Rightarrow> int \<times> int \<Rightarrow> real" where
  "diagonal_length F base_size =
     (case base_size of (base_width, base_height) \<Rightarrow>
        f_sqrt F (of_int (base_width ^ 2 + base_height ^ 2)))"

text \<open>
  Line 302; the division raises \<^verbatim>\<open>ZeroDivisionError\<close> on a zero spacing.
\<close>

definition diagonal_count :: "floats \<Rightarrow> real \<Rightarrow> int \<Rightarrow> error + int" where
  "diagonal_count F diag spacing =
     (if spacing = 0 then Inl ZeroDivisionError
      else Inr (py_int (fl F (diag / of_int spacing)) * 2))"

text \<open>
  Lines 314 and 315, inside the loop over the lines: the loop is entered only after
  line 302 has divided by the same spacing, so the division cannot raise here.
\<close>

definition text_count :: "floats \<Rightarrow> real \<Rightarrow> int \<Rightarrow> int" where
  "text_count F diag spacing =
     (let line_length = fl F (diag * 1.5)
      in py_int (fl F (line_length / of_int spacing)) + 1)"

text \<open>
  Lines 309 to 324: the two nested loops that paste the rotated tile. The raster
  \<open>pattern\<close> is updated in place by the source; here it is passed through the folds.
  \<open>place_text\<close> is the body of the inner loop (lines 318 to 324), \<open>stamp_line\<close> the
  inner loop, \<open>place_line\<close> the body of the outer loop (lines 310 to 324) and
  \<open>stamp_lines\<close> the outer loop.
\<close>

definition place_text ::
  "image \<Rightarrow> int \<times> int \<Rightarrow> int \<times> int \<Rightarrow> int \<times> int \<Rightarrow> int \<times> int \<Rightarrow> image \<Rightarrow> int \<Rightarrow> image" where
  "place_text rotated_text rsize psize line_start d pattern j =
     (case (rsize, psize, line_start, d) of
        ((rotated_width, rotated_height), (pattern_width, pattern_height),
         (line_start_x, line_start_y), (dx, dy)) \<Rightarrow>
        (let x = line_start_x + (j * dx);
             y = line_start_y + (j * dy)
         in if - rotated_width \<le> x \<and> x \<le> pattern_width \<and>
               - rotated_height \<le> y \<and> y \<le> pattern_height
            then Paste pattern rotated_text (x, y)
            else pattern))"

definition stamp_line ::
  "image \<Rightarrow> int \<times> int \<Rightarrow> int \<times> int \<Rightarrow> int \<times> int \<Rightarrow> int \<times> int \<Rightarrow> int \<Rightarrow> image \<Rightarrow> image" where
  "stamp_line rotated_text rsize psize line_start d tcount pattern =
     foldl (place_text rotated_text rsize psize line_start d) pattern [0 .. tcount - 1]"

definition place_line ::
  "floats \<Rightarrow> image \<Rightarrow> int \<times> int \<Rightarrow> int \<times> int \<Rightarrow> int \<times> int \<Rightarrow> int \<times> int \<Rightarrow> real \<Rightarrow> int
     \<Rightarrow> image \<Rightarrow> int \<Rightarrow> image" where
  "place_line F rotated_text rsize psize d perp diag spacing pattern i =
     (case (rsize, perp) of
        ((rotated_width, rotated_height), (perp_dx, perp_dy)) \<Rightarrow>
        (let start_x = - rotated_width;
             start_y = - rotated_height;
             line_start_x = start_x + (i * perp_dx);
             line_start_y = start_y + (i * perp_dy)
         in stamp_line rotated_text rsize psize (line_start_x, line_start_y) d
              (text_count F diag spacing) pattern))"

definition stamp_lines ::
  "floats \<Rightarrow> image \<Rightarrow> int \<times> int \<Rightarrow> int \<times> int \<Rightarrow> int \<times> int \<Rightarrow> int \<times> int \<Rightarrow> real \<Rightarrow> int \<Rightarrow> int
     \<Rightarrow> image \<Rightarrow> image" where
  "stamp_lines F rotated_text rsize psize d perp diag spacing dcount pattern =
     foldl (place_line F rotated_text rsize psize d perp diag spacing) pattern
       [- dcount .. dcount - 1]"

text \<open>
  Lines 253 to 264: the font. \<open>font_path\<close> is \<open>None\<close> or a string; the empty string is
  false as \<open>None\<close> is. The result is the warnings, the font and the font size.
\<close>

definition load_font :: "pil \<Rightarrow> floats \<Rightarrow> string option \<Rightarrow> int \<Rightarrow> string list \<times> font \<times> int" where
  "load_font P F font_path font_size =
     (case font_path of
        Some p \<Rightarrow>
          (if p \<noteq> [] then
             (if font_loads P p then ([], FreeTypeFont p font_size, font_size)
              else ([''Warning: Could not load font from '' @ p @ ''. Using system font.''],
                    get_system_font P, font_size))
           else
             (let font = get_system_font P
              in if font = ImageFont
                 then ([], font, py_int (fl F (of_int font_size * 1.5)))
                 else ([], font, font_size)))
      | None \<Rightarrow>
          (let font = get_system_font P
           in if font = ImageFont
              then ([], font, py_int (fl F (of_int font_size * 1.5)))
              else ([], font, font_size)))"

text \<open>
  Lines 271 to 332: the pattern, from the tile. No warning is printed in this part.
\<close>

definition tile_pattern ::
  "pil \<Rightarrow> floats \<Rightarrow> int \<times> int \<Rightarrow> image \<Rightarrow> real \<Rightarrow> real \<Rightarrow> error + image" where
  "tile_pattern P F base_size single_text angle density =
     (case base_size of (base_width, base_height) \<Rightarrow>
       (let diag = diagonal_length F base_size;
            (text_width, text_height) = image_size P single_text;
            spacing = base_spacing F (text_width, text_height) density;
            pattern_width = base_width + (2 * text_width);
            pattern_height = base_height + (2 * text_height)
        in (case image_new (pattern_width, pattern_height) (255, 255, 255, 0) of
              Inl e \<Rightarrow> Inl e
            | Inr pattern \<Rightarrow>
               (let rotated_text = Rotate single_text angle;
                    rsize = image_size P rotated_text;
                    angle_rad = f_radians F angle;
                    dx = py_int (fl F (f_cos F angle_rad * of_int spacing));
                    dy = py_int (fl F (f_sin F angle_rad * of_int spacing));
                    perp_rad = fl F (angle_rad + fl F (f_pi F / 2));
                    perp_dx = py_int (fl F (f_cos F perp_rad * of_int spacing));
                    perp_dy = py_int (fl F (f_sin F perp_rad * of_int spacing))
                in (case diagonal_count F diag spacing of
                      Inl e \<Rightarrow> Inl e
                    | Inr dcount \<Rightarrow>
                       (let stamped = stamp_lines F rotated_text rsize
                                        (pattern_width, pattern_height) (dx, dy)
                                        (perp_dx, perp_dy) diag spacing dcount pattern;
                            left = (pattern_width - base_width) div 2;
                            top' = (pattern_height - base_height) div 2;
                            right = left + base_width;
                            bottom = top' + base_height
                        in image_crop stamped (left, top', right, bottom)))))))"

definition create_photo_text_watermark ::
  "pil \<Rightarrow> floats \<Rightarrow> int \<times> int \<Rightarrow> string \<Rightarrow> string option \<Rightarrow> int \<Rightarrow> string \<Rightarrow> string \<Rightarrow> int
     \<Rightarrow> real \<Rightarrow> real \<Rightarrow> string list \<times> (error + image)" where
  "create_photo_text_watermark P F base_size text font_path font_size font_color
       outline_color outline_width angle density =
     (case load_font P F font_path font_size of (warn0, font, font_size') \<Rightarrow>
       (case create_single_text_watermark P text font font_size' font_color outline_color
               outline_width of
          (warn1, r) \<Rightarrow>
            (warn0 @ warn1,
             (case r of
                Inl e \<Rightarrow> Inl e
              | Inr single_text \<Rightarrow> tile_pattern P F base_size single_text angle density))))"

subsection \<open>Where a drawn text falls\<close>

text \<open>
  \<^verbatim>\<open>ImageDraw.textbbox(xy, text, font)\<close> is the box of the pixels of \<open>text\<close> drawn at
  \<open>xy\<close>: the box measured at the origin, moved by \<open>xy\<close>. \<open>box_inside\<close> says that a
  box lies within a raster of the given size.
\<close>

definition text_box :: "pil \<Rightarrow> font \<Rightarrow> string \<Rightarrow> int \<times> int \<Rightarrow> box" where
  "text_box P font text xy =
     (case (xy, textbbox P font text) of
        ((x, y), (x0, y0, x1, y1)) \<Rightarrow> (x + x0, y + y0, x + x1, y + y1))"

definition box_inside :: "box \<Rightarrow> int \<times> int \<Rightarrow> bool" where
  "box_inside b sz =
     (case (b, sz) of
        ((left, top', right, bottom), (width, height)) \<Rightarrow>
          0 \<le> left \<and> 0 \<le> top' \<and> right \<le> width \<and> bottom \<le> height)"

subsection \<open>Concrete libraries for the examples\<close>

text \<open>
  Exact arithmetic: no rounding, the real square root, cosine and sine, and
  \<^verbatim>\<open>math.radians\<close> as the multiplication by \<open>pi / 180\<close>. The examples below use
  inputs on which binary64 arithmetic gives the same integers: the densities are dyadic
  fractions, the products are exact or far from an integer.
\<close>

definition exact :: floats where
  "exact = \<lparr>fl = (\<lambda>x. x), f_sqrt = sqrt, f_cos = cos, f_sin = sin,
             f_radians = (\<lambda>a. a * pi / 180), f_pi = pi\<rparr>"

text \<open>
  An installation without any TrueType font file: every text is set in the built-in
  bitmap font, six pixels wide per character and eleven pixels high, measured from the
  origin; the empty text measures \<open>(0, 0, 0, 11)\<close>. Two colour strings parse. The
  examples rotate by 0 degrees, where a raster keeps its size, and the tile of 6 by 11
  by 75 degrees, where the bounding box of the rotated rectangle measures 14 by 9
  (its corners span \<open>6 cos 75 + 11 sin 75 = 12.18\<close> about the centre 3, from -3.09 to
  9.09, and \<open>6 sin 75 + 11 cos 75 = 8.64\<close> about the centre 5.5, from 1.18 to 9.82).
\<close>

definition bitmap :: pil where
  "bitmap = \<lparr>font_loads = (\<lambda>p. False),
              textbbox = (\<lambda>f t. (0, 0, 6 * int (length t), 11)),
              getcolor = (\<lambda>c. if c = ''#ffffff'' then Some (255, 255, 255, 255)
                               else if c = ''#000000'' then Some (0, 0, 0, 255)
                               else None),
              rotated_size = (\<lambda>sz a. if a = 75 \<and> sz = (6, 11) then (14, 9) else sz)\<rparr>"

text \<open>
  An installation whose font files load, so that \<open>get_system_font\<close> is the first
  name of its list at size 12. A FreeType font measures a text from the ascender line,
  under which the glyphs start: here 16 pixels per character, the box from 5 to 22
  pixels below the origin (capitals at 24 pixels); the empty text measures
  \<open>(0, 0, 0, 0)\<close>. The examples that use it rotate by 0 degrees only.
\<close>

definition truetype :: pil where
  "truetype = \<lparr>font_loads = (\<lambda>p. True),
                textbbox = (\<lambda>f t. if t = [] then (0, 0, 0, 0)
                                  else (0, 5, 16 * int (length t), 22)),
                getcolor = (\<lambda>c. if c = ''#ffffff'' then Some (255, 255, 255, 255)
                                 else if c = ''#000000'' then Some (0, 0, 0, 255)
                                 else None),
                rotated_size = (\<lambda>sz a. sz)\<rparr>"

section \<open>Evaluation and auxiliary facts\<close>

lemmas photo_eval =
  create_photo_text_watermark_def load_font_def get_system_font_def font_options_def
  backslash_def create_single_text_watermark_def image_new_def outline_offsets_def
  tile_pattern_def diagonal_length_def base_spacing_def spacing_factor_def py_int_def
  diagonal_count_def stamp_lines_def place_line_def text_count_def stamp_line_def
  image_crop_def Let_def upto.simps

lemma sqrt_100: "sqrt 100 = 10"
  using real_sqrt_abs [of 10] by simp

lemma foldl_size:
  assumes "\<And>p x. image_size P (f p x) = image_size P p"
  shows "image_size P (foldl f p xs) = image_size P p"
  using assms by (induction xs arbitrary: p) simp_all

lemma stamp_line_size:
  "image_size P (stamp_line r rs ps ls d n p) = image_size P p"
  unfolding stamp_line_def
  by (rule foldl_size) (simp add: place_text_def Let_def split: prod.splits)

lemma stamp_lines_size:
  "image_size P (stamp_lines F r rs ps d perp diag sp n p) = image_size P p"
  unfolding stamp_lines_def
  by (rule foldl_size) (simp add: place_line_def Let_def stamp_line_size split: prod.splits)

lemma tile_pattern_crop:
  assumes "tile_pattern P F (W, H) tile angle density = Inr img"
    and "image_size P tile = (tw, th)"
  shows "\<exists>pattern. img = Crop pattern (tw, th, tw + W, th + H) \<and>
           image_size P pattern = (W + 2 * tw, H + 2 * th)"
  using assms
  unfolding tile_pattern_def
  by (auto simp: Let_def image_new_def image_crop_def stamp_lines_size
           split: sum.splits if_splits prod.splits)

lemma single_returns:
  assumes "textbbox P font text = (x0, y0, x1, y1)"
    and "0 \<le> x1 - x0 + 4 * outline_width" and "0 \<le> y1 - y0 + 4 * outline_width"
  shows "\<exists>warn tile. create_single_text_watermark P text font fs font_color outline_color
           outline_width = (warn, Inr tile)"
  using assms
  by (simp add: create_single_text_watermark_def image_new_def Let_def split: option.splits)

lemma single_size:
  assumes "create_single_text_watermark P text font fs font_color outline_color
             outline_width = (warn, Inr tile)"
    and "textbbox P font text = (x0, y0, x1, y1)"
  shows "image_size P tile = (x1 - x0 + 4 * outline_width, y1 - y0 + 4 * outline_width)"
proof -
  have fold: "image_size P (foldl (\<lambda>img (ox, oy). Text img (a + ox, a + oy) text font c) p xs)
      = image_size P p" for a c p xs
    by (rule foldl_size) (simp split: prod.splits)
  show ?thesis
    using assms
    by (auto simp: create_single_text_watermark_def image_new_def Let_def fold
             split: option.splits if_splits)
qed

lemma tile_pattern_returns:
  assumes "image_size P tile = (tw, th)"
    and "0 \<le> W + 2 * tw" and "0 \<le> H + 2 * th" and "0 \<le> W" and "0 \<le> H"
    and "base_spacing F (tw, th) density \<noteq> 0"
  shows "\<exists>img. tile_pattern P F (W, H) tile angle density = Inr img"
  using assms
  by (simp add: tile_pattern_def image_new_def image_crop_def diagonal_count_def Let_def)

lemma spacing_factor_high:
  assumes "mono (fl F)" and "8 / 10 \<le> density"
  shows "spacing_factor F density = fl F 0.2"
proof -
  have "fl F (1.0 - density) \<le> fl F 0.2"
    using assms by (intro monoD [OF assms(1)]) simp
  then show ?thesis
    by (simp add: spacing_factor_def max_def min_def)
qed

lemma spacing_factor_low:
  assumes "mono (fl F)" and "fl F 1 = 1" and "density \<le> 0"
  shows "spacing_factor F density = 1"
proof -
  have "fl F 1 \<le> fl F (1.0 - density)"
    using assms(3) by (intro monoD [OF assms(1)]) simp
  moreover have "fl F 0.2 \<le> fl F 1"
    by (intro monoD [OF assms(1)]) simp
  ultimately show ?thesis
    using assms(2) by (simp add: spacing_factor_def max_def min_def)
qed

lemma tile_pattern_density_cong:
  assumes "spacing_factor F d1 = spacing_factor F d2"
  shows "tile_pattern P F base_size tile angle d1 = tile_pattern P F base_size tile angle d2"
  using assms by (simp add: tile_pattern_def base_spacing_def)

lemma photo_density_cong:
  assumes "spacing_factor F d1 = spacing_factor F d2"
  shows "create_photo_text_watermark P F base_size text font_path font_size font_color
           outline_color outline_width angle d1 =
         create_photo_text_watermark P F base_size text font_path font_size font_color
           outline_color outline_width angle d2"
  by (simp add: create_photo_text_watermark_def tile_pattern_density_cong [OF assms]
           split: prod.splits sum.splits)

lemma mono_exact: "mono (fl exact)"
  by (simp add: exact_def mono_def)

lemma single_size_nonneg:
  assumes "create_single_text_watermark P text font fs font_color outline_color
             outline_width = (warn, Inr tile)"
  shows "0 \<le> fst (image_size P tile) \<and> 0 \<le> snd (image_size P tile)"
proof -
  obtain x0 y0 x1 y1 where bb: "textbbox P font text = (x0, y0, x1, y1)"
    by (cases "textbbox P font text") auto
  have "0 \<le> x1 - x0 + 4 * outline_width \<and> 0 \<le> y1 - y0 + 4 * outline_width"
    using assms bb
    by (auto simp: create_single_text_watermark_def image_new_def Let_def
             split: if_splits)
  then show ?thesis
    using single_size [OF assms bb] by simp
qed

lemma outline_offsets_filter:
  "outline_offsets w = filter (\<lambda>p. p \<noteq> (0, 0)) (List.product [- w .. w] [- w .. w])"
proof -
  have inner: "concat (map (\<lambda>oy. if \<not> (ox = 0 \<and> oy = 0) then [(ox, oy)] else []) ys)
      = filter (\<lambda>p. p \<noteq> (0, 0)) (map (Pair ox) ys)" for ox :: int and ys :: "int list"
    by (induction ys) auto
  have outer: "concat (map (\<lambda>ox. filter (\<lambda>p. p \<noteq> (0, 0)) (map (Pair ox) ys)) xs)
      = filter (\<lambda>p. p \<noteq> (0, 0)) (List.product xs ys)" for xs ys :: "int list"
    by (induction xs) auto
  show ?thesis
    unfolding outline_offsets_def by (simp only: inner outer)
qed

lemma outline_offsets_set:
  "set (outline_offsets w) =
     {(ox, oy). - w \<le> ox \<and> ox \<le> w \<and> - w \<le> oy \<and> oy \<le> w \<and> (ox, oy) \<noteq> (0, 0)}"
  by (auto simp: outline_offsets_filter)

lemma outline_offsets_distinct: "distinct (outline_offsets w)"
  by (simp add: outline_offsets_filter distinct_product)

lemma outline_offsets_length:
  assumes "0 \<le> w"
  shows "length (outline_offsets w) = nat ((2 * w + 1) ^ 2 - 1)"
proof -
  let ?S = "set (List.product [- w .. w] [- w .. w])"
  have d: "distinct (List.product [- w .. w] [- w .. w])"
    by (simp add: distinct_product)
  have mem: "(0, 0) \<in> ?S"
    using assms by simp
  have "length (outline_offsets w) = card ({p. p \<noteq> (0, 0)} \<inter> ?S)"
    unfolding outline_offsets_filter by (rule distinct_length_filter [OF d])
  also have "{p. p \<noteq> (0, 0)} \<inter> ?S = ?S - {(0, 0)}"
    by auto
  also have "card (?S - {(0, 0)}) = card ?S - 1"
    using mem by (simp add: card_Diff_singleton)
  also have "card ?S = length (List.product [- w .. w] [- w .. w])"
    by (rule distinct_card [OF d])
  also have "\<dots> = nat (2 * w + 1) * nat (2 * w + 1)"
    by simp
  finally have "length (outline_offsets w) = nat (2 * w + 1) * nat (2 * w + 1) - 1" .
  moreover have "int (nat (2 * w + 1) * nat (2 * w + 1) - 1) = (2 * w + 1) ^ 2 - 1"
    using assms by (simp add: power2_eq_square of_nat_diff)
  ultimately show ?thesis
    by (metis nat_int)
qed

lemma text_draws_foldl:
  "text_draws (foldl (\<lambda>img (ox, oy). Text img (a + ox, a + oy) t f c) p xs) =
     text_draws p @ map (\<lambda>(ox, oy). ((a + ox, a + oy), c)) xs"
  by (induction xs arbitrary: p) (auto split: prod.splits)

lemma single_draws:
  assumes "create_single_text_watermark P text font fs font_color outline_color
             outline_width = (warn, Inr tile)"
    and "fill = (case getcolor P font_color of Some c \<Rightarrow> c | None \<Rightarrow> (255, 255, 255, 255))"
    and "outl = (case getcolor P outline_color of Some c \<Rightarrow> c | None \<Rightarrow> (0, 0, 0, 255))"
  shows "text_draws tile =
           (if 0 < outline_width
            then map (\<lambda>(ox, oy). ((outline_width * 2 + ox, outline_width * 2 + oy), outl))
                   (outline_offsets outline_width)
            else [])
           @ [((outline_width * 2, outline_width * 2), fill)]"
proof -
  obtain x0 y0 x1 y1 where bb: "textbbox P font text = (x0, y0, x1, y1)"
    by (cases "textbbox P font text") auto
  show ?thesis
    using assms bb
    by (auto simp: create_single_text_watermark_def image_new_def Let_def text_draws_foldl
             split: option.splits if_splits)
qed


lemma single_color_cong:
  assumes "(case getcolor P c1 of Some c \<Rightarrow> c | None \<Rightarrow> (255, 255, 255, 255)) =
           (case getcolor P c2 of Some c \<Rightarrow> c | None \<Rightarrow> (255, 255, 255, 255))"
    and "(case getcolor P o1 of Some c \<Rightarrow> c | None \<Rightarrow> (0, 0, 0, 255)) =
         (case getcolor P o2 of Some c \<Rightarrow> c | None \<Rightarrow> (0, 0, 0, 255))"
  shows "snd (create_single_text_watermark P text font fs c1 o1 outline_width) =
         snd (create_single_text_watermark P text font fs c2 o2 outline_width)"
proof -
  obtain x0 y0 x1 y1 where bb: "textbbox P font text = (x0, y0, x1, y1)"
    by (cases "textbbox P font text") auto
  show ?thesis
    using assms bb
    by (auto simp: create_single_text_watermark_def image_new_def Let_def
             split: option.splits if_splits)
qed

lemma single_warnings:
  assumes "create_single_text_watermark P text font fs font_color outline_color
             outline_width = (warn, Inr tile)"
  shows "warn =
           (case getcolor P font_color of
              Some c \<Rightarrow> []
            | None \<Rightarrow> [''Warning: Invalid font color '' @ quote @ font_color @ quote
                         @ ''. Using white.''])
           @ (case getcolor P outline_color of
                Some c \<Rightarrow> []
              | None \<Rightarrow> [''Warning: Invalid outline color '' @ quote @ outline_color @ quote
                           @ ''. Using black.''])"
proof -
  obtain x0 y0 x1 y1 where bb: "textbbox P font text = (x0, y0, x1, y1)"
    by (cases "textbbox P font text") auto
  show ?thesis
    using assms bb
    by (auto simp: create_single_text_watermark_def image_new_def Let_def
             split: option.splits if_splits)
qed

lemma draws_inside_tile:
  assumes cs: "create_single_text_watermark P text font fs font_color outline_color
             outline_width = (warn, Inr tile)"
    and bb: "textbbox P font text = (x0, y0, x1, y1)"
    and ow: "0 \<le> outline_width"
    and x0: "- outline_width \<le> x0" "x0 \<le> outline_width"
    and y0: "- outline_width \<le> y0" "y0 \<le> outline_width"
  shows "list_all (\<lambda>(xy, c). box_inside (text_box P font text xy) (image_size P tile))
           (text_draws tile)"
proof -
  have sz: "image_size P tile = (x1 - x0 + 4 * outline_width, y1 - y0 + 4 * outline_width)"
    by (rule single_size [OF cs bb])
  have inside: "box_inside (text_box P font text (outline_width * 2 + ox, outline_width * 2 + oy))
      (image_size P tile)"
    if "- outline_width \<le> ox" "ox \<le> outline_width" "- outline_width \<le> oy"
      "oy \<le> outline_width" for ox oy
    using that x0 y0 by (simp add: box_inside_def text_box_def bb sz)
  have "box_inside (text_box P font text xy) (image_size P tile)"
    if "(xy, c) \<in> set (text_draws tile)" for xy c
  proof -
    from that single_draws [OF cs refl refl]
    consider "xy = (outline_width * 2, outline_width * 2)"
      | ox oy where "(ox, oy) \<in> set (outline_offsets outline_width)"
          "xy = (outline_width * 2 + ox, outline_width * 2 + oy)"
      by (auto split: if_splits)
    then show ?thesis
    proof cases
      case 1
      then show ?thesis using inside [of 0 0] ow by simp
    next
      case 2
      then show ?thesis using inside [of ox oy] by (simp add: outline_offsets_set)
    qed
  qed
  then show ?thesis
    by (auto simp: list_all_iff)
qed

text \<open>
  A run that stamps: a canvas of 6 by 8 pixels, the text \<open>A\<close> with an outline of one
  pixel (a tile of 10 by 15), angle 0 and density 3/4. The spacing is 9, the diagonal 10:
  four lines of two positions each.
\<close>

lemma photo_example_returns:
  "\<exists>img. create_photo_text_watermark bitmap exact (6, 8) ''A'' None 24 ''#ffffff''
            ''#000000'' 1 0 (3 / 4) = ([], Inr img)"
  by (simp add: photo_eval bitmap_def exact_def sqrt_100)

subsection \<open>Monotonicity of the spacing\<close>

lemma py_int_mono:
  assumes "x \<le> y"
  shows "py_int x \<le> py_int y"
proof -
  consider "0 \<le> x" | "x < 0" "0 \<le> y" | "y < 0" using assms by linarith
  then show ?thesis
  proof cases
    case 1
    then show ?thesis using assms by (simp add: py_int_def floor_mono)
  next
    case 2
    have a: "\<lceil>x\<rceil> \<le> 0" using 2(1) by (simp add: ceiling_le_iff)
    have b: "0 \<le> \<lfloor>y\<rfloor>" using 2(2) by simp
    have "\<lceil>x\<rceil> \<le> \<lfloor>y\<rfloor>" by (rule order_trans [OF a b])
    then show ?thesis using 2 by (simp add: py_int_def)
  next
    case 3
    then show ?thesis using assms by (simp add: py_int_def ceiling_mono)
  qed
qed

lemma spacing_factor_antimono:
  assumes "mono (fl F)" and "d1 \<le> d2"
  shows "spacing_factor F d2 \<le> spacing_factor F d1"
proof -
  have "fl F (1.0 - d2) \<le> fl F (1.0 - d1)"
    using assms(2) by (intro monoD [OF assms(1)]) simp
  then show ?thesis
    unfolding spacing_factor_def by (intro max.mono min.mono) simp_all
qed

lemma base_spacing_antimono:
  assumes "mono (fl F)" and "fl F 0 = 0" and "0 \<le> max tw th" and "d1 \<le> d2"
  shows "base_spacing F (tw, th) d2 \<le> base_spacing F (tw, th) d1"
proof -
  have "fl F 0 \<le> fl F (of_int (max tw th) * 2.5)"
    using assms(3) by (intro monoD [OF assms(1)]) simp
  then have nonneg: "0 \<le> fl F (of_int (max tw th) * 2.5)"
    using assms(2) by simp
  have "fl F (of_int (max tw th) * 2.5) * spacing_factor F d2
      \<le> fl F (of_int (max tw th) * 2.5) * spacing_factor F d1"
    by (intro mult_left_mono spacing_factor_antimono assms nonneg)
  then show ?thesis
    unfolding base_spacing_def by (simp add: py_int_mono monoD [OF assms(1)])
qed

lemma lattice_counts_mono:
  assumes "mono (fl F)" and "fl F 0 = 0" and "0 \<le> diag" and "0 < s2" and "s2 \<le> s1"
  shows "\<exists>n1 n2. diagonal_count F diag s1 = Inr n1 \<and> diagonal_count F diag s2 = Inr n2 \<and>
           n1 \<le> n2"
    and "text_count F diag s1 \<le> text_count F diag s2"
proof -
  have pos: "0 < (of_int s2 :: real)" "(of_int s2 :: real) \<le> of_int s1"
    using assms(4,5) by simp_all
  have "diag / of_int s1 \<le> diag / of_int s2"
    using assms(3) pos by (simp add: frac_le)
  then have "py_int (fl F (diag / of_int s1)) \<le> py_int (fl F (diag / of_int s2))"
    by (intro py_int_mono monoD [OF assms(1)])
  then show "\<exists>n1 n2. diagonal_count F diag s1 = Inr n1 \<and>
      diagonal_count F diag s2 = Inr n2 \<and> n1 \<le> n2"
    using assms(4,5) by (simp add: diagonal_count_def)
  have "fl F 0 \<le> fl F (diag * 1.5)"
    using assms(3) by (intro monoD [OF assms(1)]) simp
  then have "0 \<le> fl F (diag * 1.5)"
    using assms(2) by simp
  then have "fl F (diag * 1.5) / of_int s1 \<le> fl F (diag * 1.5) / of_int s2"
    using pos by (simp add: frac_le)
  then have "py_int (fl F (fl F (diag * 1.5) / of_int s1))
      \<le> py_int (fl F (fl F (diag * 1.5) / of_int s2))"
    by (intro py_int_mono monoD [OF assms(1)])
  then show "text_count F diag s1 \<le> text_count F diag s2"
    by (simp add: text_count_def Let_def)
qed

subsection \<open>The lattice at 75 degrees in exact arithmetic\<close>

lemma sqrt2_bounds: "141 / 100 < sqrt 2" "sqrt 2 < 142 / 100"
proof -
  show "141 / 100 < sqrt 2"
    by (rule real_less_rsqrt) (simp add: power2_eq_square)
  show "sqrt 2 < 142 / 100"
    by (rule real_less_lsqrt) (simp_all add: power2_eq_square)
qed

lemma sqrt3_bounds: "173 / 100 < sqrt 3" "sqrt 3 < 174 / 100"
proof -
  show "173 / 100 < sqrt 3"
    by (rule real_less_rsqrt) (simp add: power2_eq_square)
  show "sqrt 3 < 174 / 100"
    by (rule real_less_lsqrt) (simp_all add: power2_eq_square)
qed

lemma radians_75: "(75 :: real) * pi / 180 = pi / 4 + pi / 6"
  by simp

lemma cos_75: "cos (75 * pi / 180) = sqrt 2 * (sqrt 3 - 1) / 4"
proof -
  have "cos (pi / 4 + pi / 6) = cos (pi / 4) * cos (pi / 6) - sin (pi / 4) * sin (pi / 6)"
    by (rule cos_add)
  also have "\<dots> = sqrt 2 / 2 * (sqrt 3 / 2) - sqrt 2 / 2 * (1 / 2)"
    by (simp only: cos_45 sin_45 cos_30 sin_30)
  also have "\<dots> = sqrt 2 * (sqrt 3 - 1) / 4"
    by (simp add: algebra_simps)
  finally show ?thesis
    by (simp only: radians_75)
qed

lemma sin_75: "sin (75 * pi / 180) = sqrt 2 * (sqrt 3 + 1) / 4"
proof -
  have "sin (pi / 4 + pi / 6) = sin (pi / 4) * cos (pi / 6) + cos (pi / 4) * sin (pi / 6)"
    by (rule sin_add)
  also have "\<dots> = sqrt 2 / 2 * (sqrt 3 / 2) + sqrt 2 / 2 * (1 / 2)"
    by (simp only: cos_45 sin_45 cos_30 sin_30)
  also have "\<dots> = sqrt 2 * (sqrt 3 + 1) / 4"
    by (simp add: algebra_simps)
  finally show ?thesis
    by (simp only: radians_75)
qed

lemma cos_75_bounds: "257 / 1000 < cos (75 * pi / 180)" "cos (75 * pi / 180) < 263 / 1000"
proof -
  have lo: "(141 / 100) * (73 / 100) < sqrt 2 * (sqrt 3 - 1)"
    using sqrt2_bounds sqrt3_bounds by (intro mult_strict_mono) simp_all
  have hi: "sqrt 2 * (sqrt 3 - 1) < (142 / 100) * (74 / 100)"
    using sqrt2_bounds sqrt3_bounds by (intro mult_strict_mono) simp_all
  show "257 / 1000 < cos (75 * pi / 180)"
    unfolding cos_75 using lo by simp
  show "cos (75 * pi / 180) < 263 / 1000"
    unfolding cos_75 using hi by simp
qed

lemma sin_75_bounds: "962 / 1000 < sin (75 * pi / 180)" "sin (75 * pi / 180) < 973 / 1000"
proof -
  have lo: "(141 / 100) * (273 / 100) < sqrt 2 * (sqrt 3 + 1)"
    using sqrt2_bounds sqrt3_bounds by (intro mult_strict_mono) simp_all
  have hi: "sqrt 2 * (sqrt 3 + 1) < (142 / 100) * (274 / 100)"
    using sqrt2_bounds sqrt3_bounds by (intro mult_strict_mono) simp_all
  show "962 / 1000 < sin (75 * pi / 180)"
    unfolding sin_75 using lo by simp
  show "sin (75 * pi / 180) < 973 / 1000"
    unfolding sin_75 using hi by simp
qed


lemma py_int_nonneg_eq:
  assumes "of_int n \<le> x" and "x < of_int n + 1" and "0 \<le> n"
  shows "py_int x = n"
proof -
  have "0 \<le> x" using assms(1,3) by (meson of_int_0_le_iff order_trans)
  moreover have "\<lfloor>x\<rfloor> = n" using assms(1,2) by (rule floor_unique)
  ultimately show ?thesis by (simp add: py_int_def)
qed

lemma py_int_neg_eq:
  assumes "of_int n - 1 < x" and "x \<le> of_int n" and "x < 0"
  shows "py_int x = n"
proof -
  have "\<lceil>x\<rceil> = n" using assms(1,2) by (rule ceiling_unique)
  then show ?thesis using assms(3) by (simp add: py_int_def)
qed

lemma exact_cos_75: "f_cos exact (f_radians exact 75) = cos (75 * pi / 180)"
  by (simp add: exact_def)

lemma exact_sin_75: "f_sin exact (f_radians exact 75) = sin (75 * pi / 180)"
  by (simp add: exact_def)

lemma exact_perp_cos_75:
  "f_cos exact (fl exact (f_radians exact 75 + fl exact (f_pi exact / 2)))
     = - sin (75 * pi / 180)"
proof -
  have "cos (75 * pi / 180 + pi / 2) = - sin (75 * pi / 180)"
    by (simp only: cos_add cos_pi_half sin_pi_half)
  then show ?thesis by (simp add: exact_def)
qed

lemma exact_perp_sin_75:
  "f_sin exact (fl exact (f_radians exact 75 + fl exact (f_pi exact / 2)))
     = cos (75 * pi / 180)"
proof -
  have "sin (75 * pi / 180 + pi / 2) = cos (75 * pi / 180)"
    by (simp only: sin_add cos_pi_half sin_pi_half)
  then show ?thesis by (simp add: exact_def)
qed

lemma steps_75:
  "py_int (fl exact (f_cos exact (f_radians exact 75) * 9)) = 2"
  "py_int (fl exact (f_sin exact (f_radians exact 75) * 9)) = 8"
  "py_int (fl exact (f_cos exact (fl exact (f_radians exact 75 + fl exact (f_pi exact / 2))) * 9))
     = - 8"
  "py_int (fl exact (f_sin exact (fl exact (f_radians exact 75 + fl exact (f_pi exact / 2))) * 9))
     = 2"
  "py_int (fl exact (f_cos exact (f_radians exact 75) * 8)) = 2"
  "py_int (fl exact (f_sin exact (f_radians exact 75) * 8)) = 7"
  "py_int (fl exact (f_cos exact (fl exact (f_radians exact 75 + fl exact (f_pi exact / 2))) * 8))
     = - 7"
  "py_int (fl exact (f_sin exact (fl exact (f_radians exact 75 + fl exact (f_pi exact / 2))) * 8))
     = 2"
proof -
  define c where "c = cos (75 * pi / 180)"
  define s where "s = sin (75 * pi / 180)"
  have cb: "257 / 1000 < c" "c < 263 / 1000"
    unfolding c_def by (rule cos_75_bounds)+
  have sb: "962 / 1000 < s" "s < 973 / 1000"
    unfolding s_def by (rule sin_75_bounds)+
  have e: "fl exact (f_cos exact (f_radians exact 75) * k) = c * k"
    "fl exact (f_sin exact (f_radians exact 75) * k) = s * k"
    "fl exact (f_cos exact (fl exact (f_radians exact 75 + fl exact (f_pi exact / 2))) * k)
       = - s * k"
    "fl exact (f_sin exact (fl exact (f_radians exact 75 + fl exact (f_pi exact / 2))) * k)
       = c * k" for k
    unfolding exact_perp_cos_75 exact_perp_sin_75 exact_cos_75 exact_sin_75 c_def s_def
    by (simp_all add: exact_def)
  show "py_int (fl exact (f_cos exact (f_radians exact 75) * 9)) = 2"
    unfolding e using cb by (intro py_int_nonneg_eq) simp_all
  show "py_int (fl exact (f_sin exact (f_radians exact 75) * 9)) = 8"
    unfolding e using sb by (intro py_int_nonneg_eq) simp_all
  show "py_int (fl exact (f_cos exact (fl exact (f_radians exact 75 + fl exact (f_pi exact / 2))) * 9))
     = - 8"
    unfolding e using sb by (intro py_int_neg_eq) simp_all
  show "py_int (fl exact (f_sin exact (fl exact (f_radians exact 75 + fl exact (f_pi exact / 2))) * 9))
     = 2"
    unfolding e using cb by (intro py_int_nonneg_eq) simp_all
  show "py_int (fl exact (f_cos exact (f_radians exact 75) * 8)) = 2"
    unfolding e using cb by (intro py_int_nonneg_eq) simp_all
  show "py_int (fl exact (f_sin exact (f_radians exact 75) * 8)) = 7"
    unfolding e using sb by (intro py_int_nonneg_eq) simp_all
  show "py_int (fl exact (f_cos exact (fl exact (f_radians exact 75 + fl exact (f_pi exact / 2))) * 8))
     = - 7"
    unfolding e using sb by (intro py_int_neg_eq) simp_all
  show "py_int (fl exact (f_sin exact (fl exact (f_radians exact 75 + fl exact (f_pi exact / 2))) * 8))
     = 2"
    unfolding e using cb by (intro py_int_nonneg_eq) simp_all
qed


text \<open>
  A canvas of 12 by 16 pixels (diagonal 20), the text \<open>A\<close> without outline (a tile
  of 6 by 11), 75 degrees: at density 21/32 the spacing is 9 and the steps are
  \<open>(2, 8)\<close> and \<open>(-8, 2)\<close>; at density 11/16 the spacing is 8 and the steps are
  \<open>(2, 7)\<close> and \<open>(-7, 2)\<close>. Both runs visit 8 lines of 4 positions.
\<close>

lemma sqrt_400: "sqrt 400 = 20"
  using real_sqrt_abs [of 20] by simp

lemma example_75_facts:
  "load_font bitmap exact None 24 = ([], ImageFont, 36)"
  "create_single_text_watermark bitmap ''A'' ImageFont 36 ''#ffffff'' ''#000000'' 0 =
     ([], Inr (Text (New (6, 11) (255, 255, 255, 0)) (0, 0) ''A'' ImageFont (255, 255, 255, 255)))"
  "diagonal_length exact (12, 16) = 20"
  "base_spacing exact (6, 11) (21 / 32) = 9"
  "base_spacing exact (6, 11) (11 / 16) = 8"
  "diagonal_count exact 20 9 = Inr 4"
  "diagonal_count exact 20 8 = Inr 4"
  "text_count exact 20 9 = 4"
  "text_count exact 20 8 = 4"
  by (simp_all add: load_font_def get_system_font_def font_options_def backslash_def
        create_single_text_watermark_def image_new_def diagonal_length_def base_spacing_def
        spacing_factor_def diagonal_count_def text_count_def py_int_def bitmap_def exact_def
        sqrt_400)

lemmas stamp_eval =
  stamp_lines_def place_line_def stamp_line_def image_crop_def Let_def upto.simps

lemma example_75_sparse:
  "\<exists>img. create_photo_text_watermark bitmap exact (12, 16) ''A'' None 24 ''#ffffff''
            ''#000000'' 0 75 (21 / 32) = ([], Inr img) \<and> stamp_count img = 16"
  apply (simp add: create_photo_text_watermark_def tile_pattern_def example_75_facts steps_75
      image_new_def Let_def)
  apply (simp add: bitmap_def stamp_eval example_75_facts)
  apply (simp add: place_text_def)
  done

lemma example_75_dense:
  "\<exists>img. create_photo_text_watermark bitmap exact (12, 16) ''A'' None 24 ''#ffffff''
            ''#000000'' 0 75 (11 / 16) = ([], Inr img) \<and> stamp_count img = 15"
  apply (simp add: create_photo_text_watermark_def tile_pattern_def example_75_facts steps_75
      image_new_def Let_def)
  apply (simp add: bitmap_def stamp_eval example_75_facts)
  apply (simp add: place_text_def)
  done


section \<open>The claims\<close>

text \<open>
  C1. Whenever \<^verbatim>\<open>create_photo_text_watermark\<close> returns normally on a canvas of
  positive width \<open>W\<close> and height \<open>H\<close>, the raster it returns measures exactly \<open>(W, H)\<close>:
  it is the crop of the working canvas, of size \<open>W + 2 * tile_width\<close> by
  \<open>H + 2 * tile_height\<close>, at \<open>left = (working_width - W) div 2\<close> and
  \<open>top = (working_height - H) div 2\<close>, with \<open>right = left + W\<close> and
  \<open>bottom = top + H\<close>.
\<close>

theorem photo_watermark_size:
  assumes "0 < W" and "0 < H"
    and "create_photo_text_watermark P F (W, H) text font_path font_size font_color
           outline_color outline_width angle density = (warn, Inr img)"
  shows "image_size P img = (W, H) \<and>
         (\<exists>pattern working_width working_height w tile.
            create_single_text_watermark P text (fst (snd (load_font P F font_path font_size)))
              (snd (snd (load_font P F font_path font_size))) font_color outline_color
              outline_width = (w, Inr tile) \<and>
            working_width = W + 2 * fst (image_size P tile) \<and>
            working_height = H + 2 * snd (image_size P tile) \<and>
            image_size P pattern = (working_width, working_height) \<and>
            img = Crop pattern ((working_width - W) div 2, (working_height - H) div 2,
                                (working_width - W) div 2 + W, (working_height - H) div 2 + H))"
proof -
  obtain warn0 font fs where lf: "load_font P F font_path font_size = (warn0, font, fs)"
    by (cases "load_font P F font_path font_size") auto
  obtain w r where cs: "create_single_text_watermark P text font fs font_color outline_color
      outline_width = (w, r)"
    by (cases "create_single_text_watermark P text font fs font_color outline_color
      outline_width") auto
  from assms(3) lf cs obtain tile where r: "r = Inr tile"
    and tp: "tile_pattern P F (W, H) tile angle density = Inr img"
    by (cases r) (auto simp: create_photo_text_watermark_def)
  obtain tw th where sz: "image_size P tile = (tw, th)"
    by (cases "image_size P tile") auto
  from tile_pattern_crop [OF tp sz] obtain pattern
    where img: "img = Crop pattern (tw, th, tw + W, th + H)"
      and psz: "image_size P pattern = (W + 2 * tw, H + 2 * th)"
    by blast
  have "image_size P img = (W, H)"
    using img by simp
  moreover have "create_single_text_watermark P text (fst (snd (load_font P F font_path font_size)))
      (snd (snd (load_font P F font_path font_size))) font_color outline_color outline_width
      = (w, Inr tile)"
    using lf cs r by simp
  ultimately show ?thesis
    using img psz sz by auto
qed

theorem photo_watermark_size_witness:
  "(0::int) < 6 \<and> (0::int) < 8 \<and>
   (\<exists>img. create_photo_text_watermark bitmap exact (6, 8) ''A'' None 24 ''#ffffff''
             ''#000000'' 1 0 (3 / 4) = ([], Inr img) \<and>
          image_size bitmap img = (6, 8))"
proof -
  obtain img where run: "create_photo_text_watermark bitmap exact (6, 8) ''A'' None 24
      ''#ffffff'' ''#000000'' 1 0 (3 / 4) = ([], Inr img)"
    using photo_example_returns by blast
  have "image_size bitmap img = (6, 8)"
    using photo_watermark_size [OF _ _ run] by simp
  with run show ?thesis by auto
qed

text \<open>
  C2 (as the code has it). The claim asks for an \<^verbatim>\<open>EmptyWatermarkError\<close> on the empty
  text, raised before rotation and tiling. The code has no such check and no such
  exception: the empty text is rendered like any other. With \<open>truetype\<close> and an outline
  of one pixel the empty text gives a tile of 4 by 4, which is rotated and pasted 16
  times, and a raster of the canvas size is returned.
\<close>

theorem empty_text_counterexample:
  "\<exists>img. create_photo_text_watermark truetype exact (6, 8) [] None 24 ''#ffffff''
            ''#000000'' 1 0 (1 / 2) = ([], Inr img) \<and>
         image_size truetype img = (6, 8) \<and> stamp_count img = 16"
  by (simp add: photo_eval truetype_def exact_def sqrt_100) (simp add: place_text_def)

text \<open>
  C2, amended. A text whose measured box has no width and no height (the empty text) is
  not rejected. Its tile measures \<open>4 * outline_width\<close> on each side, and whenever
  \<open>outline_width\<close> and the canvas dimensions are not negative and the spacing computed
  from that tile is not zero, \<^verbatim>\<open>create_photo_text_watermark\<close> goes on to rotate and
  tile and returns a raster of the canvas size. (A zero spacing is the subject of C3.)
\<close>

theorem empty_text_not_rejected:
  assumes "load_font P F font_path font_size = (warn0, font, fs)"
    and "textbbox P font text = (x0, y0, x0, y0)"
    and "0 \<le> outline_width" and "0 \<le> W" and "0 \<le> H"
    and "base_spacing F (4 * outline_width, 4 * outline_width) density \<noteq> 0"
  shows "\<exists>warn tile img.
           create_single_text_watermark P text font fs font_color outline_color outline_width
             = (warn, Inr tile) \<and>
           image_size P tile = (4 * outline_width, 4 * outline_width) \<and>
           create_photo_text_watermark P F (W, H) text font_path font_size font_color
             outline_color outline_width angle density = (warn0 @ warn, Inr img) \<and>
           image_size P img = (W, H)"
proof -
  from single_returns [OF assms(2), of outline_width fs font_color outline_color] assms(3)
  obtain warn tile where cs: "create_single_text_watermark P text font fs font_color
      outline_color outline_width = (warn, Inr tile)"
    by auto
  have sz: "image_size P tile = (4 * outline_width, 4 * outline_width)"
    using single_size [OF cs assms(2)] by simp
  from tile_pattern_returns [OF sz _ _ assms(4,5,6), of angle] assms(3,4,5)
  obtain img where tp: "tile_pattern P F (W, H) tile angle density = Inr img"
    by auto
  from tile_pattern_crop [OF tp sz] have "image_size P img = (W, H)"
    by auto
  moreover have "create_photo_text_watermark P F (W, H) text font_path font_size font_color
      outline_color outline_width angle density = (warn0 @ warn, Inr img)"
    using assms(1) cs tp by (simp add: create_photo_text_watermark_def)
  ultimately show ?thesis
    using cs sz by blast
qed

theorem empty_text_not_rejected_witness:
  "load_font truetype exact None 24 = ([], FreeTypeFont ''Arial.ttf'' 12, 24) \<and>
   textbbox truetype (FreeTypeFont ''Arial.ttf'' 12) [] = (0, 0, 0, 0) \<and>
   base_spacing exact (4 * 1, 4 * 1) (1 / 2) = 5 \<and>
   (\<exists>warn tile img.
      create_single_text_watermark truetype [] (FreeTypeFont ''Arial.ttf'' 12) 24 ''#ffffff''
        ''#000000'' 1 = (warn, Inr tile) \<and>
      image_size truetype tile = (4, 4) \<and>
      create_photo_text_watermark truetype exact (6, 8) [] None 24 ''#ffffff'' ''#000000''
        1 0 (1 / 2) = ([] @ warn, Inr img) \<and>
      image_size truetype img = (6, 8))"
proof -
  have lf: "load_font truetype exact None 24 = ([], FreeTypeFont ''Arial.ttf'' 12, 24)"
    by (simp add: load_font_def get_system_font_def font_options_def truetype_def)
  have bb: "textbbox truetype (FreeTypeFont ''Arial.ttf'' 12) [] = (0, 0, 0, 0)"
    by (simp add: truetype_def)
  have sp: "base_spacing exact (4 * 1, 4 * 1) (1 / 2) = 5"
    by (simp add: base_spacing_def spacing_factor_def py_int_def exact_def)
  have "\<exists>warn tile img.
      create_single_text_watermark truetype [] (FreeTypeFont ''Arial.ttf'' 12) 24 ''#ffffff''
        ''#000000'' 1 = (warn, Inr tile) \<and>
      image_size truetype tile = (4 * 1, 4 * 1) \<and>
      create_photo_text_watermark truetype exact (6, 8) [] None 24 ''#ffffff'' ''#000000''
        1 0 (1 / 2) = ([] @ warn, Inr img) \<and>
      image_size truetype img = (6, 8)"
    using sp by (intro empty_text_not_rejected [OF lf bb]) simp_all
  then show ?thesis
    using lf bb sp by simp
qed

text \<open>
  C3 (the code at a failing input). The claim says that the spacing is at least 1, so
  that the divisions by it never divide by zero. The code takes \<^verbatim>\<open>int(...)\<close> of the
  product and has no lower bound: a tile of 0 by 0 (the empty text of \<open>truetype\<close>
  without outline) gives
  the spacing 0, here at density 1/2, and line 302 raises \<^verbatim>\<open>ZeroDivisionError\<close>; a
  tile of 1 by 1 gives the spacing 0 at density 3/4.
\<close>

theorem zero_spacing_divides_by_zero:
  "base_spacing exact (0, 0) (1 / 2) = 0 \<and>
   create_photo_text_watermark truetype exact (6, 8) [] None 24 ''#ffffff'' ''#000000''
     0 0 (1 / 2) = ([], Inl ZeroDivisionError) \<and>
   base_spacing exact (1, 1) (3 / 4) = 0"
  by (simp add: photo_eval truetype_def exact_def sqrt_100)

text \<open>
  C4 (as the code has it). The claim says that between two densities \<open>d1 < d2\<close> of
  \<open>[0.2, 0.9]\<close> the spacing strictly decreases and the number of stamped tiles does not
  decrease. Neither holds. For the tile of 6 by 11 the densities 13/16 and 7/8 give the
  same spacing 5 (the factor is clamped at 0.2, and \<^verbatim>\<open>int\<close> truncates). On the canvas
  of 12 by 16 at 75 degrees the density 21/32 stamps 16 tiles and the larger density
  11/16 stamps 15: the steps are truncated one by one, so the finer lattice is not the
  coarser one scaled down, and fewer of its positions pass the bounds test.
\<close>

theorem density_monotonicity_counterexample:
  "base_spacing exact (6, 11) (13 / 16) = 5 \<and> base_spacing exact (6, 11) (7 / 8) = 5 \<and>
   base_spacing exact (6, 11) (21 / 32) = 9 \<and> base_spacing exact (6, 11) (11 / 16) = 8 \<and>
   (\<exists>img1 img2.
      create_photo_text_watermark bitmap exact (12, 16) ''A'' None 24 ''#ffffff'' ''#000000''
        0 75 (21 / 32) = ([], Inr img1) \<and>
      create_photo_text_watermark bitmap exact (12, 16) ''A'' None 24 ''#ffffff'' ''#000000''
        0 75 (11 / 16) = ([], Inr img2) \<and>
      stamp_count img1 = 16 \<and> stamp_count img2 = 15)"
proof -
  have "base_spacing exact (6, 11) (13 / 16) = 5" "base_spacing exact (6, 11) (7 / 8) = 5"
    by (simp_all add: base_spacing_def spacing_factor_def py_int_def exact_def)
  then show ?thesis
    using example_75_sparse example_75_dense by (auto simp: example_75_facts)
qed

text \<open>
  C4, amended. Under a monotone rounding that keeps 0, for a tile and a diagonal that
  are not negative and densities \<open>d1 \<le> d2\<close>: the spacing at \<open>d2\<close> is at most the
  spacing at \<open>d1\<close>, and when the spacing at \<open>d2\<close> is positive, the number of lines
  (line 302) and the number of positions on a line (line 315) at \<open>d2\<close> are at least
  those at \<open>d1\<close>; so is the number of lattice positions the loops visit.
\<close>

theorem spacing_decreases_with_density:
  assumes "mono (fl F)" and "fl F 0 = 0"
    and "0 \<le> tw" and "0 \<le> th" and "0 \<le> diagonal_length F base_size"
    and "d1 \<le> d2"
  shows "base_spacing F (tw, th) d2 \<le> base_spacing F (tw, th) d1 \<and>
         (0 < base_spacing F (tw, th) d2 \<longrightarrow>
            (\<exists>n1 n2.
               diagonal_count F (diagonal_length F base_size) (base_spacing F (tw, th) d1)
                 = Inr n1 \<and>
               diagonal_count F (diagonal_length F base_size) (base_spacing F (tw, th) d2)
                 = Inr n2 \<and>
               n1 \<le> n2) \<and>
            text_count F (diagonal_length F base_size) (base_spacing F (tw, th) d1)
              \<le> text_count F (diagonal_length F base_size) (base_spacing F (tw, th) d2))"
proof -
  have le: "base_spacing F (tw, th) d2 \<le> base_spacing F (tw, th) d1"
    using assms by (intro base_spacing_antimono) simp_all
  then show ?thesis
    using lattice_counts_mono [OF assms(1,2,5) _ le] by blast
qed

theorem spacing_decreases_with_density_witness:
  "mono (fl exact) \<and> fl exact 0 = 0 \<and> (0 :: int) \<le> 6 \<and> (0 :: int) \<le> 11 \<and>
   0 \<le> diagonal_length exact (12, 16) \<and> (21 / 32 :: real) \<le> 11 / 16 \<and>
   base_spacing exact (6, 11) (11 / 16) \<le> base_spacing exact (6, 11) (21 / 32) \<and>
   0 < base_spacing exact (6, 11) (11 / 16) \<and>
   (\<exists>n1 n2. diagonal_count exact (diagonal_length exact (12, 16))
               (base_spacing exact (6, 11) (21 / 32)) = Inr n1 \<and>
            diagonal_count exact (diagonal_length exact (12, 16))
               (base_spacing exact (6, 11) (11 / 16)) = Inr n2 \<and> n1 \<le> n2) \<and>
   text_count exact (diagonal_length exact (12, 16)) (base_spacing exact (6, 11) (21 / 32))
     \<le> text_count exact (diagonal_length exact (12, 16)) (base_spacing exact (6, 11) (11 / 16))"
proof -
  have f0: "fl exact 0 = 0"
    by (simp add: exact_def)
  have dg: "0 \<le> diagonal_length exact (12, 16)"
    by (simp add: example_75_facts)
  have pos: "0 < base_spacing exact (6, 11) (11 / 16)"
    by (simp add: example_75_facts)
  from spacing_decreases_with_density [OF mono_exact f0 _ _ dg, of 6 11 "21 / 32" "11 / 16"] pos
  show ?thesis
    using mono_exact f0 dg by simp
qed


text \<open>
  C5 (as the code has it). The claim asks for a validation error, before any rendering,
  on a density outside \<open>(0, 1]\<close> and on a canvas dimension that is not positive. The code
  validates neither: density 2 on a canvas of 6 by 8, and density 3/4 on a canvas of 0 by
  0, both return a raster.
\<close>

theorem no_validation_counterexample:
  "(\<exists>img. create_photo_text_watermark bitmap exact (6, 8) ''A'' None 24 ''#ffffff''
             ''#000000'' 1 0 2 = ([], Inr img) \<and> image_size bitmap img = (6, 8)) \<and>
   (\<exists>img. create_photo_text_watermark bitmap exact (0, 0) ''A'' None 24 ''#ffffff''
             ''#000000'' 1 0 (3 / 4) = ([], Inr img) \<and> image_size bitmap img = (0, 0))"
  by (simp add: photo_eval bitmap_def exact_def sqrt_100)

text \<open>
  C5, amended. Under a monotone rounding that keeps 1, a density outside \<open>(0, 1]\<close> is
  clamped, not rejected: a density above 1 gives the result of density 1 and a density of
  0 or less gives the result of density 0. A canvas dimension of zero is not rejected
  either: whenever the tile is rendered and the spacing is not zero, a canvas with
  \<open>0 \<le> W\<close> and \<open>0 \<le> H\<close> gives a raster of size \<open>(W, H)\<close>.
\<close>

theorem density_and_canvas_not_validated:
  assumes "mono (fl F)" and "fl F 1 = 1"
  shows "(1 < density \<longrightarrow>
            create_photo_text_watermark P F base_size text font_path font_size font_color
              outline_color outline_width angle density =
            create_photo_text_watermark P F base_size text font_path font_size font_color
              outline_color outline_width angle 1) \<and>
         (density \<le> 0 \<longrightarrow>
            create_photo_text_watermark P F base_size text font_path font_size font_color
              outline_color outline_width angle density =
            create_photo_text_watermark P F base_size text font_path font_size font_color
              outline_color outline_width angle 0) \<and>
         (\<forall>warn0 font fs warn tile W H.
            load_font P F font_path font_size = (warn0, font, fs) \<and>
            create_single_text_watermark P text font fs font_color outline_color outline_width
              = (warn, Inr tile) \<and>
            base_spacing F (image_size P tile) density \<noteq> 0 \<and>
            0 \<le> W \<and> 0 \<le> H \<longrightarrow>
            (\<exists>img. create_photo_text_watermark P F (W, H) text font_path font_size font_color
                     outline_color outline_width angle density = (warn0 @ warn, Inr img) \<and>
                   image_size P img = (W, H)))"
proof (intro conjI impI allI)
  assume "1 < density"
  then have "spacing_factor F density = spacing_factor F 1"
    using spacing_factor_high [OF assms(1), of density] spacing_factor_high [OF assms(1), of 1]
    by simp
  then show "create_photo_text_watermark P F base_size text font_path font_size font_color
      outline_color outline_width angle density =
    create_photo_text_watermark P F base_size text font_path font_size font_color
      outline_color outline_width angle 1"
    by (rule photo_density_cong)
next
  assume "density \<le> 0"
  then have "spacing_factor F density = spacing_factor F 0"
    using spacing_factor_low [OF assms, of density] spacing_factor_low [OF assms, of 0]
    by simp
  then show "create_photo_text_watermark P F base_size text font_path font_size font_color
      outline_color outline_width angle density =
    create_photo_text_watermark P F base_size text font_path font_size font_color
      outline_color outline_width angle 0"
    by (rule photo_density_cong)
next
  fix warn0 font fs warn tile and W H :: int
  assume a: "load_font P F font_path font_size = (warn0, font, fs) \<and>
            create_single_text_watermark P text font fs font_color outline_color outline_width
              = (warn, Inr tile) \<and>
            base_spacing F (image_size P tile) density \<noteq> 0 \<and>
            0 \<le> W \<and> 0 \<le> H"
  obtain tw th where sz: "image_size P tile = (tw, th)"
    by (cases "image_size P tile") auto
  from a sz single_size_nonneg [of P "text" font fs font_color outline_color outline_width warn tile]
  have "\<exists>img. tile_pattern P F (W, H) tile angle density = Inr img"
    by (intro tile_pattern_returns [OF sz]) auto
  then obtain img where tp: "tile_pattern P F (W, H) tile angle density = Inr img"
    by blast
  from tile_pattern_crop [OF tp sz] have "image_size P img = (W, H)"
    by auto
  moreover have "create_photo_text_watermark P F (W, H) text font_path font_size font_color
      outline_color outline_width angle density = (warn0 @ warn, Inr img)"
    using a tp by (simp add: create_photo_text_watermark_def)
  ultimately show "\<exists>img. create_photo_text_watermark P F (W, H) text font_path font_size
      font_color outline_color outline_width angle density = (warn0 @ warn, Inr img) \<and>
      image_size P img = (W, H)"
    by blast
qed

theorem density_and_canvas_not_validated_witness:
  "mono (fl exact) \<and> fl exact 1 = 1 \<and> (1 :: real) < 2 \<and>
   create_photo_text_watermark bitmap exact (6, 8) ''A'' None 24 ''#ffffff'' ''#000000''
     1 0 2 =
   create_photo_text_watermark bitmap exact (6, 8) ''A'' None 24 ''#ffffff'' ''#000000''
     1 0 1 \<and>
   (- 1 :: real) \<le> 0 \<and>
   create_photo_text_watermark bitmap exact (6, 8) ''A'' None 24 ''#ffffff'' ''#000000''
     1 0 (- 1) =
   create_photo_text_watermark bitmap exact (6, 8) ''A'' None 24 ''#ffffff'' ''#000000''
     1 0 0 \<and>
   (\<exists>warn img. create_photo_text_watermark bitmap exact (0, 0) ''A'' None 24 ''#ffffff''
                  ''#000000'' 1 0 (3 / 4) = (warn, Inr img) \<and>
                image_size bitmap img = (0, 0))"
proof -
  have f1: "fl exact 1 = 1"
    by (simp add: exact_def)
  note inst = density_and_canvas_not_validated [OF mono_exact f1]
  have hi: "create_photo_text_watermark bitmap exact (6, 8) ''A'' None 24 ''#ffffff''
      ''#000000'' 1 0 2 =
    create_photo_text_watermark bitmap exact (6, 8) ''A'' None 24 ''#ffffff'' ''#000000''
      1 0 1"
    using inst [of 2 bitmap "(6, 8)" "''A''" None 24 "''#ffffff''" "''#000000''" 1 0]
    by simp
  have lo: "create_photo_text_watermark bitmap exact (6, 8) ''A'' None 24 ''#ffffff''
      ''#000000'' 1 0 (- 1) =
    create_photo_text_watermark bitmap exact (6, 8) ''A'' None 24 ''#ffffff'' ''#000000''
      1 0 0"
    using inst [of "- 1" bitmap "(6, 8)" "''A''" None 24 "''#ffffff''" "''#000000''" 1 0]
    by simp
  have lf: "load_font bitmap exact None 24 = ([], ImageFont, 36)"
    by (simp add: load_font_def get_system_font_def font_options_def backslash_def
          py_int_def bitmap_def exact_def)
  have bb: "textbbox bitmap ImageFont ''A'' = (0, 0, 6, 11)"
    by (simp add: bitmap_def)
  obtain warn tile where cs: "create_single_text_watermark bitmap ''A'' ImageFont 36
      ''#ffffff'' ''#000000'' 1 = (warn, Inr tile)"
    using single_returns [OF bb, of 1 36 "''#ffffff''" "''#000000''"] by auto
  have sz: "image_size bitmap tile = (10, 15)"
    using single_size [OF cs bb] by simp
  have sp: "base_spacing exact (image_size bitmap tile) (3 / 4) \<noteq> 0"
    by (simp add: sz base_spacing_def spacing_factor_def py_int_def exact_def)
  have "\<exists>img. create_photo_text_watermark bitmap exact (0, 0) ''A'' None 24 ''#ffffff''
      ''#000000'' 1 0 (3 / 4) = ([] @ warn, Inr img) \<and> image_size bitmap img = (0, 0)"
    using inst [of "3 / 4" bitmap "(6, 8)" "''A''" None 24 "''#ffffff''" "''#000000''" 1 0]
      lf cs sp
    by simp
  then show ?thesis
    using hi lo f1 mono_exact by auto
qed

text \<open>
  C6. A colour string that does not parse does not abort the tile. The fill falls back
  to opaque white: the fill draw of the tile has the colour \<open>(255, 255, 255, 255)\<close>.
  The outline falls back to opaque black: every outline draw has the colour
  \<open>(0, 0, 0, 255)\<close>. The draws are otherwise those of any tile (the outline draws at
  the offsets, then the fill draw at the padding), the tile is the one obtained with a
  string that parses to the fallback colour, the warning is printed whenever the tile is
  produced, and the tile is produced whenever its size is not negative.
\<close>

theorem invalid_color_falls_back:
  assumes "getcolor P bad = None"
    and "getcolor P white = Some (255, 255, 255, 255)"
    and "getcolor P black = Some (0, 0, 0, 255)"
  shows "snd (create_single_text_watermark P text font fs bad outline_color outline_width) =
         snd (create_single_text_watermark P text font fs white outline_color outline_width) \<and>
         snd (create_single_text_watermark P text font fs font_color bad outline_width) =
         snd (create_single_text_watermark P text font fs font_color black outline_width) \<and>
         (\<forall>warn tile.
            create_single_text_watermark P text font fs bad outline_color outline_width
              = (warn, Inr tile) \<longrightarrow>
            ''Warning: Invalid font color '' @ quote @ bad @ quote @ ''. Using white.''
              \<in> set warn \<and>
            text_draws tile =
              (if 0 < outline_width
               then map (\<lambda>(offset_x, offset_y).
                           ((outline_width * 2 + offset_x, outline_width * 2 + offset_y),
                            (case getcolor P outline_color of
                               Some c \<Rightarrow> c | None \<Rightarrow> (0, 0, 0, 255))))
                      (outline_offsets outline_width)
               else [])
              @ [((outline_width * 2, outline_width * 2), (255, 255, 255, 255))]) \<and>
         (\<forall>warn tile.
            create_single_text_watermark P text font fs font_color bad outline_width
              = (warn, Inr tile) \<longrightarrow>
            ''Warning: Invalid outline color '' @ quote @ bad @ quote @ ''. Using black.''
              \<in> set warn \<and>
            text_draws tile =
              (if 0 < outline_width
               then map (\<lambda>(offset_x, offset_y).
                           ((outline_width * 2 + offset_x, outline_width * 2 + offset_y),
                            (0, 0, 0, 255)))
                      (outline_offsets outline_width)
               else [])
              @ [((outline_width * 2, outline_width * 2),
                  (case getcolor P font_color of
                     Some c \<Rightarrow> c | None \<Rightarrow> (255, 255, 255, 255)))]) \<and>
         (\<forall>x0 y0 x1 y1.
            textbbox P font text = (x0, y0, x1, y1) \<and>
            0 \<le> x1 - x0 + 4 * outline_width \<and> 0 \<le> y1 - y0 + 4 * outline_width \<longrightarrow>
            (\<exists>warn tile.
               create_single_text_watermark P text font fs bad bad outline_width
                 = (warn, Inr tile)))"
proof (intro conjI allI impI)
  show "snd (create_single_text_watermark P text font fs bad outline_color outline_width) =
        snd (create_single_text_watermark P text font fs white outline_color outline_width)"
    by (rule single_color_cong) (simp_all add: assms)
  show "snd (create_single_text_watermark P text font fs font_color bad outline_width) =
        snd (create_single_text_watermark P text font fs font_color black outline_width)"
    by (rule single_color_cong) (simp_all add: assms)
next
  fix warn tile
  assume run: "create_single_text_watermark P text font fs bad outline_color outline_width
            = (warn, Inr tile)"
  from single_warnings [OF run] assms(1)
  show "''Warning: Invalid font color '' @ quote @ bad @ quote @ ''. Using white.''
          \<in> set warn"
    by simp
  from single_draws [OF run refl refl] assms(1)
  show "text_draws tile =
      (if 0 < outline_width
       then map (\<lambda>(offset_x, offset_y).
                   ((outline_width * 2 + offset_x, outline_width * 2 + offset_y),
                    (case getcolor P outline_color of
                       Some c \<Rightarrow> c | None \<Rightarrow> (0, 0, 0, 255))))
              (outline_offsets outline_width)
       else [])
      @ [((outline_width * 2, outline_width * 2), (255, 255, 255, 255))]"
    by simp
next
  fix warn tile
  assume run: "create_single_text_watermark P text font fs font_color bad outline_width
            = (warn, Inr tile)"
  from single_warnings [OF run] assms(1)
  show "''Warning: Invalid outline color '' @ quote @ bad @ quote @ ''. Using black.''
          \<in> set warn"
    by simp
  from single_draws [OF run refl refl] assms(1)
  show "text_draws tile =
      (if 0 < outline_width
       then map (\<lambda>(offset_x, offset_y).
                   ((outline_width * 2 + offset_x, outline_width * 2 + offset_y),
                    (0, 0, 0, 255)))
              (outline_offsets outline_width)
       else [])
      @ [((outline_width * 2, outline_width * 2),
          (case getcolor P font_color of
             Some c \<Rightarrow> c | None \<Rightarrow> (255, 255, 255, 255)))]"
    by simp
next
  fix x0 y0 x1 y1
  assume "textbbox P font text = (x0, y0, x1, y1) \<and>
            0 \<le> x1 - x0 + 4 * outline_width \<and> 0 \<le> y1 - y0 + 4 * outline_width"
  then show "\<exists>warn tile. create_single_text_watermark P text font fs bad bad outline_width
      = (warn, Inr tile)"
    using single_returns [of P font "text" x0 y0 x1 y1 outline_width fs bad bad] by simp
qed

theorem invalid_color_falls_back_witness:
  "getcolor bitmap ''notacolor'' = None \<and>
   getcolor bitmap ''#ffffff'' = Some (255, 255, 255, 255) \<and>
   getcolor bitmap ''#000000'' = Some (0, 0, 0, 255) \<and>
   snd (create_single_text_watermark bitmap ''A'' ImageFont 36 ''notacolor'' ''#000000'' 1) =
   snd (create_single_text_watermark bitmap ''A'' ImageFont 36 ''#ffffff'' ''#000000'' 1) \<and>
   snd (create_single_text_watermark bitmap ''A'' ImageFont 36 ''#ffffff'' ''notacolor'' 1) =
   snd (create_single_text_watermark bitmap ''A'' ImageFont 36 ''#ffffff'' ''#000000'' 1) \<and>
   (\<exists>warn tile.
      create_single_text_watermark bitmap ''A'' ImageFont 36 ''notacolor'' ''notacolor'' 1
        = (warn, Inr tile) \<and>
      ''Warning: Invalid font color '' @ quote @ ''notacolor'' @ quote @ ''. Using white.''
        \<in> set warn \<and>
      ''Warning: Invalid outline color '' @ quote @ ''notacolor'' @ quote @ ''. Using black.''
        \<in> set warn \<and>
      text_draws tile =
        [((1, 1), (0, 0, 0, 255)), ((1, 2), (0, 0, 0, 255)), ((1, 3), (0, 0, 0, 255)),
         ((2, 1), (0, 0, 0, 255)), ((2, 3), (0, 0, 0, 255)),
         ((3, 1), (0, 0, 0, 255)), ((3, 2), (0, 0, 0, 255)), ((3, 3), (0, 0, 0, 255)),
         ((2, 2), (255, 255, 255, 255))])"
proof -
  have g: "getcolor bitmap ''notacolor'' = None"
    "getcolor bitmap ''#ffffff'' = Some (255, 255, 255, 255)"
    "getcolor bitmap ''#000000'' = Some (0, 0, 0, 255)"
    by (simp_all add: bitmap_def)
  have bb: "textbbox bitmap ImageFont ''A'' = (0, 0, 6, 11)"
    by (simp add: bitmap_def)
  have offs: "outline_offsets 1 =
      [(- 1, - 1), (- 1, 0), (- 1, 1), (0, - 1), (0, 1), (1, - 1), (1, 0), (1, 1)]"
    by (simp add: outline_offsets_def upto.simps)
  note inst = invalid_color_falls_back [OF g, of "''A''" ImageFont 36]
  from inst [of "''#000000''" 1 "''#ffffff''"] bb
  obtain warn tile where cs: "create_single_text_watermark bitmap ''A'' ImageFont 36
      ''notacolor'' ''notacolor'' 1 = (warn, Inr tile)"
    by auto
  have w1: "''Warning: Invalid font color '' @ quote @ ''notacolor'' @ quote
      @ ''. Using white.'' \<in> set warn"
    using inst [of "''notacolor''" 1 "''#ffffff''"] cs by blast
  have w2: "''Warning: Invalid outline color '' @ quote @ ''notacolor'' @ quote
      @ ''. Using black.'' \<in> set warn"
    using inst [of "''#000000''" 1 "''notacolor''"] cs by blast
  have "text_draws tile =
      (if (0 :: int) < 1
       then map (\<lambda>(offset_x, offset_y).
                   ((1 * 2 + offset_x, 1 * 2 + offset_y),
                    (case getcolor bitmap ''notacolor'' of
                       Some c \<Rightarrow> c | None \<Rightarrow> (0, 0, 0, 255))))
              (outline_offsets 1)
       else [])
      @ [((1 * 2, 1 * 2), (255, 255, 255, 255))]"
    using inst [of "''notacolor''" 1 "''#ffffff''"] cs by blast
  then have d: "text_draws tile =
        [((1, 1), (0, 0, 0, 255)), ((1, 2), (0, 0, 0, 255)), ((1, 3), (0, 0, 0, 255)),
         ((2, 1), (0, 0, 0, 255)), ((2, 3), (0, 0, 0, 255)),
         ((3, 1), (0, 0, 0, 255)), ((3, 2), (0, 0, 0, 255)), ((3, 3), (0, 0, 0, 255)),
         ((2, 2), (255, 255, 255, 255))]"
    by (simp add: offs g)
  show ?thesis
    using g inst [of "''#000000''" 1 "''#ffffff''"] cs w1 w2 d by blast
qed


text \<open>
  C7 (the code at a failing input). The tile is allocated with the size the claim
  states, but the text is drawn at \<open>(padding + offset_x, padding + offset_y)\<close> without
  taking off the origin \<open>(x0, y0)\<close> of the measured box, so the draws stay within the
  tile only when that origin is within \<open>outline_width\<close> of zero (lemma
  \<open>draws_inside_tile\<close>). For \<open>SAMPLE\<close> in a FreeType font, measured as
  \<open>(0, 5, 96, 22)\<close>, with an outline of one pixel, the tile is 100 by 21 and each of the
  nine draws reaches below it.
\<close>

theorem outline_draws_leave_tile:
  "\<exists>tile. create_single_text_watermark truetype ''SAMPLE'' (FreeTypeFont ''arial.ttf'' 24) 24
            ''#ffffff'' ''#000000'' 1 = ([], Inr tile) \<and>
          image_size truetype tile = (96 + 4 * 1, 17 + 4 * 1) \<and>
          length (text_draws tile) = 9 \<and>
          list_all (\<lambda>(xy, c).
                      \<not> box_inside (text_box truetype (FreeTypeFont ''arial.ttf'' 24) ''SAMPLE'' xy)
                          (image_size truetype tile))
            (text_draws tile)"
  by (simp add: create_single_text_watermark_def image_new_def outline_offsets_def upto.simps
        truetype_def box_inside_def text_box_def)


text \<open>
  C8. With \<open>outline_width = 0\<close> the tile receives exactly one text draw, the fill at
  the padding origin \<open>(0, 0)\<close>. With \<open>outline_width = w > 0\<close> it receives one outline
  draw for each offset pair of \<open>[-w, w]\<close> squared except \<open>(0, 0)\<close>, that is
  \<open>(2 w + 1)\<^sup>2 - 1\<close> draws at \<open>(padding + offset_x, padding + offset_y)\<close>, and then
  the single fill draw at \<open>(padding, padding)\<close>.
\<close>

theorem outline_pass_draws:
  assumes "create_single_text_watermark P text font fs font_color outline_color
             outline_width = (warn, Inr tile)"
    and "fill = (case getcolor P font_color of Some c \<Rightarrow> c | None \<Rightarrow> (255, 255, 255, 255))"
    and "outl = (case getcolor P outline_color of Some c \<Rightarrow> c | None \<Rightarrow> (0, 0, 0, 255))"
  shows "(outline_width = 0 \<longrightarrow> text_draws tile = [((0, 0), fill)]) \<and>
         (0 < outline_width \<longrightarrow>
            text_draws tile =
              map (\<lambda>(offset_x, offset_y).
                     ((2 * outline_width + offset_x, 2 * outline_width + offset_y), outl))
                (outline_offsets outline_width)
              @ [((2 * outline_width, 2 * outline_width), fill)] \<and>
            length (outline_offsets outline_width) = nat ((2 * outline_width + 1) ^ 2 - 1) \<and>
            distinct (outline_offsets outline_width) \<and>
            set (outline_offsets outline_width) =
              {(offset_x, offset_y).
                 - outline_width \<le> offset_x \<and> offset_x \<le> outline_width \<and>
                 - outline_width \<le> offset_y \<and> offset_y \<le> outline_width \<and>
                 (offset_x, offset_y) \<noteq> (0, 0)})"
  using single_draws [OF assms] outline_offsets_length [of outline_width]
    outline_offsets_distinct [of outline_width] outline_offsets_set [of outline_width]
  by (simp add: mult.commute)

theorem outline_pass_draws_witness:
  "(\<exists>tile. create_single_text_watermark bitmap ''A'' ImageFont 36 ''#ffffff'' ''#000000'' 1
            = ([], Inr tile) \<and>
          text_draws tile =
            [((1, 1), (0, 0, 0, 255)), ((1, 2), (0, 0, 0, 255)), ((1, 3), (0, 0, 0, 255)),
             ((2, 1), (0, 0, 0, 255)), ((2, 3), (0, 0, 0, 255)),
             ((3, 1), (0, 0, 0, 255)), ((3, 2), (0, 0, 0, 255)), ((3, 3), (0, 0, 0, 255)),
             ((2, 2), (255, 255, 255, 255))]) \<and>
   length (outline_offsets 1) = 8 \<and>
   (\<exists>tile. create_single_text_watermark bitmap ''A'' ImageFont 36 ''#ffffff'' ''#000000'' 0
            = ([], Inr tile) \<and>
          text_draws tile = [((0, 0), (255, 255, 255, 255))])"
proof -
  have fill: "(255, 255, 255, 255) =
      (case getcolor bitmap ''#ffffff'' of Some c \<Rightarrow> c | None \<Rightarrow> (255, 255, 255, 255))"
    by (simp add: bitmap_def)
  have outl: "(0, 0, 0, 255) =
      (case getcolor bitmap ''#000000'' of Some c \<Rightarrow> c | None \<Rightarrow> (0, 0, 0, 255))"
    by (simp add: bitmap_def)
  have offs: "outline_offsets 1 =
      [(- 1, - 1), (- 1, 0), (- 1, 1), (0, - 1), (0, 1), (1, - 1), (1, 0), (1, 1)]"
    by (simp add: outline_offsets_def upto.simps)
  obtain tile1 where c1: "create_single_text_watermark bitmap ''A'' ImageFont 36 ''#ffffff''
      ''#000000'' 1 = ([], Inr tile1)"
    by (simp add: create_single_text_watermark_def image_new_def bitmap_def)
  obtain tile0 where c0: "create_single_text_watermark bitmap ''A'' ImageFont 36 ''#ffffff''
      ''#000000'' 0 = ([], Inr tile0)"
    by (simp add: create_single_text_watermark_def image_new_def bitmap_def)
  have d1: "text_draws tile1 =
            [((1, 1), (0, 0, 0, 255)), ((1, 2), (0, 0, 0, 255)), ((1, 3), (0, 0, 0, 255)),
             ((2, 1), (0, 0, 0, 255)), ((2, 3), (0, 0, 0, 255)),
             ((3, 1), (0, 0, 0, 255)), ((3, 2), (0, 0, 0, 255)), ((3, 3), (0, 0, 0, 255)),
             ((2, 2), (255, 255, 255, 255))]"
    using outline_pass_draws [OF c1 fill outl] by (simp add: offs)
  have l1: "length (outline_offsets 1) = 8"
    using outline_pass_draws [OF c1 fill outl] by simp
  have d0: "text_draws tile0 = [((0, 0), (255, 255, 255, 255))]"
    using outline_pass_draws [OF c0 fill outl] by simp
  show ?thesis
    using c1 d1 l1 c0 d0 by blast
qed


text \<open>
  C10. Density saturates above 0.8: under a monotone rounding, two densities \<open>d1\<close> and
  \<open>d2\<close> in \<open>[0.8, 1]\<close> give the same result of \<^verbatim>\<open>create_photo_text_watermark\<close>, all
  other inputs equal, because the spacing factor of both is the clamp value \<open>fl 0.2\<close>
  and the density is read nowhere else.
\<close>

theorem density_saturates:
  assumes "mono (fl F)"
    and "8 / 10 \<le> d1" and "d1 \<le> 1" and "8 / 10 \<le> d2" and "d2 \<le> 1"
  shows "create_photo_text_watermark P F base_size text font_path font_size font_color
           outline_color outline_width angle d1 =
         create_photo_text_watermark P F base_size text font_path font_size font_color
           outline_color outline_width angle d2"
  by (rule photo_density_cong)
     (simp add: spacing_factor_high [OF assms(1,2)] spacing_factor_high [OF assms(1,4)])

theorem density_saturates_witness:
  "mono (fl exact) \<and> (8 / 10 :: real) \<le> 4 / 5 \<and> (4 / 5 :: real) \<le> 1 \<and>
   (8 / 10 :: real) \<le> 1 \<and> (1 :: real) \<le> 1 \<and>
   create_photo_text_watermark bitmap exact (6, 8) ''A'' None 24 ''#ffffff'' ''#000000''
     1 0 (4 / 5) =
   create_photo_text_watermark bitmap exact (6, 8) ''A'' None 24 ''#ffffff'' ''#000000''
     1 0 1"
  using density_saturates [of exact "4 / 5" 1 bitmap "(6, 8)" "''A''" None 24 "''#ffffff''"
      "''#000000''" 1 0] mono_exact
  by simp


end
